theory Spec2Isabelle
  imports Main
begin

section \<open>The bridging header CHMBridge.h\<close>

text \<open>
  The repository's source is one C header, \<^verbatim>\<open>Sources/CHMLib/include/CHMBridge.h\<close>.
  It defines no function: all it does happens in the C preprocessor. The header is
  embedded line by line, and the preprocessor directives it uses are given their
  meaning by a small interpreter.
\<close>

subsection \<open>Lines of a header\<close>

text \<open>
  A line of program text is the list of its preprocessing tokens. One constructor per
  kind of line the header has. A line inside a \<^verbatim>\<open>/* ... */\<close> block or holding
  only a \<^verbatim>\<open>//\<close> comment is \<open>Comment\<close> (comments are removed before directives
  are read, so a directive spelled inside a comment is no directive); \<open>Define\<close> gives
  an object-like macro its replacement list; \<open>Code\<close> is a line of program text that is
  not a directive.
\<close>

type_synonym token = string

datatype line =
    Comment
  | Blank
  | IfDef string
  | IfNDef string
  | EndIf
  | Define string "token list"
  | Include string
  | Code "token list"

text \<open>Line 25, \<^verbatim>\<open>extern "C" {\<close>, and line 57, \<^verbatim>\<open>}\<close>.\<close>

definition linkage_open :: "token list" where
  \<open>linkage_open = [''extern'', ''"C"'', ''{'']\<close>

definition linkage_close :: "token list" where
  \<open>linkage_close = [''}'']\<close>

text \<open>
  The file, physical line 1 to line 60. Lines 8 to 16 and 36 to 40 are block comments
  (the first one holds an older version of the header, the second one sample
  prototypes); the trailing comment of line 60 is dropped. Line 20 defines
  \<^verbatim>\<open>CHMBridge_h\<close> with an empty replacement list.
\<close>

definition CHMBridge_h :: "line list" where
  "CHMBridge_h =
    [ Comment, Comment, Comment, Comment, Comment, Comment,
      Blank,
      Comment, Comment, Comment, Comment, Comment, Comment, Comment, Comment, Comment,
      Blank,
      Blank,
      IfNDef ''CHMBridge_h'',
      Define ''CHMBridge_h'' [],
      Blank,
      Comment,
      IfDef ''__cplusplus'',
      Comment,
      Code linkage_open,
      EndIf,
      Blank,
      Comment, Comment, Comment, Comment, Comment, Comment,
      Include ''chm_lib.h'',
      Blank,
      Comment, Comment, Comment, Comment, Comment,
      Blank,
      Comment, Comment, Comment,
      Include ''chm_lib.h'',
      Blank,
      Comment, Comment, Comment, Comment, Comment, Comment, Comment,
      Blank,
      IfDef ''__cplusplus'',
      Comment,
      Code linkage_close,
      EndIf,
      Blank,
      EndIf ]"

subsection \<open>The preprocessor on these lines\<close>

datatype pp_error =
    NoSuchFile string
  | EndifWithoutIf
  | UnterminatedConditional

text \<open>
  What the preprocessor carries from line to line: the macros defined so far, each with
  its replacement list (the latest definition of a name first), and \<open>other\<close>, whatever
  else it keeps (the files marked \<^verbatim>\<open>#pragma once\<close>, counters). The lines of
  \<^verbatim>\<open>CHMBridge.h\<close> never touch \<open>other\<close>; an included file may.
\<close>

record 'x env =
  macros :: "(string \<times> token list) list"
  other :: 'x

text \<open>
  What including a file does: from the environment it either fails or gives the lines
  of program text it emits and the environment afterwards. The file
  \<^verbatim>\<open>chm_lib.h\<close> is not among the sources, so the files that can be included are a
  parameter \<open>fs\<close> of the interpreter, by name.
\<close>

type_synonym 'x header = "'x env \<Rightarrow> pp_error + (token list list \<times> 'x env)"

type_synonym 'x files = "string \<Rightarrow> 'x header option"

definition is_defined :: "'x env \<Rightarrow> string \<Rightarrow> bool" where
  "is_defined e n = (map_of (macros e) n \<noteq> None)"

definition define_macro :: "string \<Rightarrow> token list \<Rightarrow> 'x env \<Rightarrow> 'x env" where
  "define_macro n body e = e\<lparr>macros := (n, body) # macros e\<rparr>"

text \<open>
  Macro replacement in a line of program text. Only an identifier can name a macro. A
  token that names a macro is replaced by the macro's replacement list, which is
  scanned again for macro names; a name under replacement (\<open>hide\<close>) is not replaced
  again inside its own replacement.
\<close>

definition ident_start :: "char \<Rightarrow> bool" where
  "ident_start c = (c \<in> set ''abcdefghijklmnopqrstuvwxyzABCDEFGHIJKLMNOPQRSTUVWXYZ_'')"

definition ident_char :: "char \<Rightarrow> bool" where
  "ident_char c = (ident_start c \<or> c \<in> set ''0123456789'')"

fun is_identifier :: "token \<Rightarrow> bool" where
  "is_identifier [] = False"
| "is_identifier (c # cs) = (ident_start c \<and> list_all ident_char cs)"

function expand ::
  "(string \<times> token list) list \<Rightarrow> string list \<Rightarrow> token list \<Rightarrow> token list" where
  "expand ms hide [] = []"
| "expand ms hide (t # ts) =
     (if is_identifier t \<and> t \<notin> set hide then
        (case map_of ms t of
           None \<Rightarrow> t # expand ms hide ts
         | Some body \<Rightarrow> expand ms (t # hide) body @ expand ms hide ts)
      else t # expand ms hide ts)"
  by pat_completeness auto
termination
proof (relation "measures [\<lambda>(ms, hide, ts). card (fst ` set ms - set hide),
                           \<lambda>(ms, hide, ts). length ts]", goal_cases)
  case 1
  then show ?case by simp
next
  case (2 ms hide t ts)
  then show ?case by simp
next
  case (3 ms hide t ts body)
  then have "t \<in> fst ` set ms" "t \<notin> set hide"
    by (auto dest: map_of_SomeD intro: rev_image_eqI)
  then have "fst ` set ms - set (t # hide) \<subset> fst ` set ms - set hide"
    by auto
  then have "card (fst ` set ms - set (t # hide)) < card (fst ` set ms - set hide)"
    by (intro psubset_card_mono) auto
  then show ?case by simp
next
  case (4 ms hide t ts body)
  then show ?case by simp
next
  case (5 ms hide t ts)
  then show ?case by simp
qed

record 'x pp_state =
  penv :: "'x env"
  conds :: "bool list"
  emitted :: "token list list"

text \<open>
  \<open>conds\<close> is the stack of open conditionals; each entry says whether the lines of
  that group are processed, so the top entry already accounts for the enclosing groups.
\<close>

fun active :: "'x pp_state \<Rightarrow> bool" where
  "active s = (case conds s of [] \<Rightarrow> True | b # _ \<Rightarrow> b)"

fun pp_line :: "'x files \<Rightarrow> line \<Rightarrow> 'x pp_state \<Rightarrow> pp_error + 'x pp_state" where
  "pp_line fs Comment s = Inr s"
| "pp_line fs Blank s = Inr s"
| "pp_line fs (IfDef m) s =
     Inr (s\<lparr>conds := (active s \<and> is_defined (penv s) m) # conds s\<rparr>)"
| "pp_line fs (IfNDef m) s =
     Inr (s\<lparr>conds := (active s \<and> \<not> is_defined (penv s) m) # conds s\<rparr>)"
| "pp_line fs EndIf s =
     (case conds s of [] \<Rightarrow> Inl EndifWithoutIf | _ # cs \<Rightarrow> Inr (s\<lparr>conds := cs\<rparr>))"
| "pp_line fs (Define m body) s =
     Inr (if active s then s\<lparr>penv := define_macro m body (penv s)\<rparr> else s)"
| "pp_line fs (Include f) s =
     (if active s then
        (case fs f of
           None \<Rightarrow> Inl (NoSuchFile f)
         | Some h \<Rightarrow>
             (case h (penv s) of
                Inl err \<Rightarrow> Inl err
              | Inr (out, e') \<Rightarrow> Inr (s\<lparr>penv := e', emitted := emitted s @ out\<rparr>)))
      else Inr s)"
| "pp_line fs (Code ts) s =
     Inr (if active s
          then s\<lparr>emitted := emitted s @ [expand (macros (penv s)) [] ts]\<rparr> else s)"

fun pp_lines :: "'x files \<Rightarrow> line list \<Rightarrow> 'x pp_state \<Rightarrow> pp_error + 'x pp_state" where
  "pp_lines fs [] s = Inr s"
| "pp_lines fs (l # ls) s =
     (case pp_line fs l s of Inl err \<Rightarrow> Inl err | Inr s' \<Rightarrow> pp_lines fs ls s')"

text \<open>Preprocessing a whole file: every conditional it opens must be closed in it.\<close>

definition preprocess :: "'x files \<Rightarrow> line list \<Rightarrow> 'x header" where
  "preprocess fs ls e =
     (case pp_lines fs ls \<lparr>penv = e, conds = [], emitted = []\<rparr> of
        Inl err \<Rightarrow> Inl err
      | Inr s \<Rightarrow>
          if conds s \<noteq> [] then Inl UnterminatedConditional
          else Inr (emitted s, penv s))"

subsection \<open>What the claim compares the header with\<close>

text \<open>
  Written from the claim's words, not from the source: "including chm_lib.h (wrapped in
  extern "C" under C++)". One inclusion of \<^verbatim>\<open>chm_lib.h\<close> between the two
  conditional linkage lines.
\<close>

definition chm_lib_wrapped :: "line list" where
  "chm_lib_wrapped =
    [ IfDef ''__cplusplus'', Code linkage_open, EndIf,
      Include ''chm_lib.h'',
      IfDef ''__cplusplus'', Code linkage_close, EndIf ]"

text \<open>
  The two things a translation unit gets from an inclusion: the program text (its
  declarations and definitions), and the macros defined afterwards.
\<close>

fun emitted_text :: "pp_error + (token list list \<times> 'x env) \<Rightarrow> pp_error + token list list" where
  "emitted_text (Inl err) = Inl err"
| "emitted_text (Inr (out, e)) = Inr out"

fun defined_after :: "pp_error + (token list list \<times> 'x env) \<Rightarrow> string \<Rightarrow> bool" where
  "defined_after (Inl err) n = False"
| "defined_after (Inr (out, e)) n = is_defined e n"

text \<open>A line is text of \<^verbatim>\<open>chm_lib.h\<close> when some inclusion of that file emits it.\<close>

definition chm_lib_emits :: "'x files \<Rightarrow> token list \<Rightarrow> bool" where
  "chm_lib_emits fs l =
     (\<exists>h e out e'. fs ''chm_lib.h'' = Some h \<and> h e = Inr (out, e') \<and> l \<in> set out)"

text \<open>
  A header is protected against repeated inclusion, seen from the environment \<open>e\<close>,
  when including it again right after a first inclusion emits nothing and leaves the
  environment as it is.
\<close>

definition second_inclusion_empty :: "'x header \<Rightarrow> 'x env \<Rightarrow> bool" where
  "second_inclusion_empty h e =
     (case h e of Inl err \<Rightarrow> True | Inr (out, e') \<Rightarrow> h e' = Inr ([], e'))"

subsection \<open>A sample translation unit\<close>

text \<open>
  A sample content for \<^verbatim>\<open>chm_lib.h\<close>, with the include guard a library header
  has, as the only file there is to include; a C++ and a C environment to start from;
  and the environment the C++ one becomes once \<^verbatim>\<open>CHMBridge.h\<close> has been included.
\<close>

definition guarded_chm_lib :: "line list" where
  "guarded_chm_lib =
    [ IfNDef ''INCLUDED_CHMLIB_H'',
      Define ''INCLUDED_CHMLIB_H'' [],
      Code [''struct'', ''chmFile'', '';''],
      EndIf ]"

definition sample_chm_lib :: "unit header" where
  "sample_chm_lib = preprocess (\<lambda>_. None) guarded_chm_lib"

definition sample_files :: "unit files" where
  "sample_files f = (if f = ''chm_lib.h'' then Some sample_chm_lib else None)"

definition cxx_env :: "unit env" where
  "cxx_env = \<lparr>macros = [(''__cplusplus'', [''201703L''])], other = ()\<rparr>"

definition c_env :: "unit env" where
  "c_env = \<lparr>macros = [], other = ()\<rparr>"

definition cxx_env_after :: "unit env" where
  "cxx_env_after =
     \<lparr>macros = [(''INCLUDED_CHMLIB_H'', []), (''CHMBridge_h'', []),
                (''__cplusplus'', [''201703L''])], other = ()\<rparr>"

section \<open>What preprocessing the header gives\<close>

lemma CHMBridge_h_length: "length CHMBridge_h = 60"
  by (simp add: CHMBridge_h_def)

lemma expand_linkage_close [simp]: "expand ms hide linkage_close = linkage_close"
  by (simp add: linkage_close_def ident_start_def)

lemma is_defined_define_macro [simp]:
  "is_defined (define_macro n body e) m = (m = n \<or> is_defined e m)"
  by (auto simp add: is_defined_def define_macro_def)

lemma macros_define_macro [simp]: "macros (define_macro n body e) = (n, body) # macros e"
  by (simp add: define_macro_def)

text \<open>
  The whole effect of the header, for any files and any environment: nothing at all
  when its guard macro is already defined; otherwise the guard macro, the opening
  linkage line under C++, what the include lines 34 and 45 give, and the closing
  linkage line under C++.
\<close>

lemma CHMBridge_h_effect:
  "preprocess fs CHMBridge_h e =
     (if is_defined e ''CHMBridge_h'' then Inr ([], e)
      else case fs ''chm_lib.h'' of
        None \<Rightarrow> Inl (NoSuchFile ''chm_lib.h'')
      | Some h \<Rightarrow>
         (case h (define_macro ''CHMBridge_h'' [] e) of
            Inl err \<Rightarrow> Inl err
          | Inr (o1, e1) \<Rightarrow>
             (case h e1 of
                Inl err \<Rightarrow> Inl err
              | Inr (o2, e2) \<Rightarrow>
                  Inr ((if is_defined e ''__cplusplus''
                        then [expand ((''CHMBridge_h'', []) # macros e) [] linkage_open]
                        else []) @ o1 @ o2 @
                       (if is_defined e2 ''__cplusplus'' then [linkage_close] else []), e2))))"
  by (simp add: preprocess_def CHMBridge_h_def split: option.splits sum.splits prod.splits)

lemma chm_lib_wrapped_effect:
  "preprocess fs chm_lib_wrapped e =
     (case fs ''chm_lib.h'' of
        None \<Rightarrow> Inl (NoSuchFile ''chm_lib.h'')
      | Some h \<Rightarrow>
         (case h e of
            Inl err \<Rightarrow> Inl err
          | Inr (o1, e1) \<Rightarrow>
              Inr ((if is_defined e ''__cplusplus''
                    then [expand (macros e) [] linkage_open] else []) @ o1 @
                   (if is_defined e1 ''__cplusplus'' then [linkage_close] else []), e1)))"
  by (simp add: preprocess_def chm_lib_wrapped_def split: option.splits sum.splits prod.splits)

lemma guard_then_wrapped_effect:
  "preprocess fs (Define ''CHMBridge_h'' [] # chm_lib_wrapped) e =
     (case fs ''chm_lib.h'' of
        None \<Rightarrow> Inl (NoSuchFile ''chm_lib.h'')
      | Some h \<Rightarrow>
         (case h (define_macro ''CHMBridge_h'' [] e) of
            Inl err \<Rightarrow> Inl err
          | Inr (o1, e1) \<Rightarrow>
              Inr ((if is_defined e ''__cplusplus''
                    then [expand ((''CHMBridge_h'', []) # macros e) [] linkage_open]
                    else []) @ o1 @
                   (if is_defined e1 ''__cplusplus'' then [linkage_close] else []), e1)))"
  by (simp add: preprocess_def chm_lib_wrapped_def split: option.splits sum.splits prod.splits)

lemma sample_chm_lib_effect:
  "sample_chm_lib e =
     (if is_defined e ''INCLUDED_CHMLIB_H'' then Inr ([], e)
      else Inr ([expand ((''INCLUDED_CHMLIB_H'', []) # macros e) []
                   [''struct'', ''chmFile'', '';'']],
                define_macro ''INCLUDED_CHMLIB_H'' [] e))"
  by (simp add: sample_chm_lib_def preprocess_def guarded_chm_lib_def)

text \<open>
  Claim C10, as it holds of the header. The header has no program text of its own:
  for any files and any environment, every line it emits is one of its two conditional
  \<^verbatim>\<open>extern "C"\<close> linkage lines or a line emitted by \<^verbatim>\<open>chm_lib.h\<close>. On a
  first inclusion (\<^verbatim>\<open>CHMBridge_h\<close> not yet defined), with a \<^verbatim>\<open>chm_lib.h\<close>
  protected against repeated inclusion, including \<^verbatim>\<open>CHMBridge.h\<close> is the same as
  including \<^verbatim>\<open>chm_lib.h\<close> between the conditional linkage lines, except that the
  include-guard macro \<^verbatim>\<open>CHMBridge_h\<close> is defined first: the same text is emitted
  and the same environment is left, so that macro is the only definition the header
  adds to those of \<^verbatim>\<open>chm_lib.h\<close>. Once \<^verbatim>\<open>CHMBridge_h\<close> is defined, including
  the header again emits nothing and changes nothing.
\<close>

theorem CHMBridge_h_adds_only_its_guard:
  "(preprocess fs CHMBridge_h e = Inr (out, e') \<and> l \<in> set out \<longrightarrow>
      l = expand ((''CHMBridge_h'', []) # macros e) [] linkage_open \<or>
      l = linkage_close \<or> chm_lib_emits fs l)
   \<and>
   (\<not> is_defined e ''CHMBridge_h'' \<and> fs ''chm_lib.h'' = Some h \<and>
    second_inclusion_empty h (define_macro ''CHMBridge_h'' [] e) \<longrightarrow>
      preprocess fs CHMBridge_h e =
      preprocess fs (Define ''CHMBridge_h'' [] # chm_lib_wrapped) e)
   \<and>
   (is_defined e ''CHMBridge_h'' \<longrightarrow> preprocess fs CHMBridge_h e = Inr ([], e))"
proof (intro conjI impI)
  assume a: "preprocess fs CHMBridge_h e = Inr (out, e') \<and> l \<in> set out"
  show "l = expand ((''CHMBridge_h'', []) # macros e) [] linkage_open \<or>
        l = linkage_close \<or> chm_lib_emits fs l"
  proof (cases "is_defined e ''CHMBridge_h''")
    case True
    with a show ?thesis by (auto simp add: CHMBridge_h_effect)
  next
    case False
    with a obtain h o1 e1 o2 where h: "fs ''chm_lib.h'' = Some h"
      and h1: "h (define_macro ''CHMBridge_h'' [] e) = Inr (o1, e1)"
      and h2: "h e1 = Inr (o2, e')"
      and out: "out = (if is_defined e ''__cplusplus''
                        then [expand ((''CHMBridge_h'', []) # macros e) [] linkage_open]
                        else []) @ o1 @ o2 @
                       (if is_defined e' ''__cplusplus'' then [linkage_close] else [])"
      by (auto simp add: CHMBridge_h_effect split: option.splits sum.splits prod.splits)
    from a out consider
        "l = expand ((''CHMBridge_h'', []) # macros e) [] linkage_open"
      | "l \<in> set o1" | "l \<in> set o2" | "l = linkage_close"
      by (auto split: if_splits)
    then show ?thesis
    proof cases
      case 2
      with h h1 have "chm_lib_emits fs l" unfolding chm_lib_emits_def by blast
      then show ?thesis by simp
    next
      case 3
      with h h2 have "chm_lib_emits fs l" unfolding chm_lib_emits_def by blast
      then show ?thesis by simp
    qed simp_all
  qed
next
  assume "\<not> is_defined e ''CHMBridge_h'' \<and> fs ''chm_lib.h'' = Some h \<and>
    second_inclusion_empty h (define_macro ''CHMBridge_h'' [] e)"
  then show "preprocess fs CHMBridge_h e =
      preprocess fs (Define ''CHMBridge_h'' [] # chm_lib_wrapped) e"
    by (auto simp add: CHMBridge_h_effect guard_then_wrapped_effect second_inclusion_empty_def
        split: sum.splits prod.splits)
next
  assume "is_defined e ''CHMBridge_h''"
  then show "preprocess fs CHMBridge_h e = Inr ([], e)"
    by (simp add: CHMBridge_h_effect)
qed

theorem CHMBridge_h_adds_only_its_guard_witness:
  "\<not> is_defined cxx_env ''CHMBridge_h'' \<and>
   sample_files ''chm_lib.h'' = Some sample_chm_lib \<and>
   second_inclusion_empty sample_chm_lib (define_macro ''CHMBridge_h'' [] cxx_env) \<and>
   preprocess sample_files CHMBridge_h cxx_env =
     preprocess sample_files (Define ''CHMBridge_h'' [] # chm_lib_wrapped) cxx_env \<and>
   preprocess sample_files CHMBridge_h cxx_env =
     Inr ([linkage_open, [''struct'', ''chmFile'', '';''], linkage_close], cxx_env_after) \<and>
   chm_lib_emits sample_files [''struct'', ''chmFile'', '';''] \<and>
   is_defined cxx_env_after ''CHMBridge_h'' \<and>
   preprocess sample_files CHMBridge_h cxx_env_after = Inr ([], cxx_env_after)"
proof -
  let ?d = "[''struct'', ''chmFile'', '';'']"
  have a: "\<not> is_defined cxx_env ''CHMBridge_h''"
    by (simp add: is_defined_def cxx_env_def)
  have b: "sample_files ''chm_lib.h'' = Some sample_chm_lib"
    by (simp add: sample_files_def)
  have c: "second_inclusion_empty sample_chm_lib (define_macro ''CHMBridge_h'' [] cxx_env)"
    by (simp add: second_inclusion_empty_def sample_chm_lib_effect cxx_env_def is_defined_def)
  have r: "preprocess sample_files CHMBridge_h cxx_env =
             Inr ([linkage_open, ?d, linkage_close], cxx_env_after)"
    unfolding CHMBridge_h_effect
    by (simp add: sample_files_def sample_chm_lib_effect cxx_env_def cxx_env_after_def
          is_defined_def define_macro_def linkage_open_def ident_start_def)
  have d: "is_defined cxx_env_after ''CHMBridge_h''"
    by (simp add: is_defined_def cxx_env_after_def)
  have m: "?d \<in> set [linkage_open, ?d, linkage_close]"
    by simp
  have n1: "?d \<noteq> expand ((''CHMBridge_h'', []) # macros cxx_env) [] linkage_open"
    by (simp add: linkage_open_def cxx_env_def ident_start_def)
  have n2: "?d \<noteq> linkage_close"
    by (simp add: linkage_close_def)
  note first = CHMBridge_h_adds_only_its_guard
     [of sample_files cxx_env "[linkage_open, ?d, linkage_close]" cxx_env_after ?d
         sample_chm_lib]
  note again = CHMBridge_h_adds_only_its_guard
     [of sample_files cxx_env_after "[]" cxx_env_after ?d sample_chm_lib]
  from first a b c have eq: "preprocess sample_files CHMBridge_h cxx_env =
      preprocess sample_files (Define ''CHMBridge_h'' [] # chm_lib_wrapped) cxx_env"
    by (elim conjE) simp
  from first r m n1 n2 have em: "chm_lib_emits sample_files ?d"
    by (elim conjE) simp
  from again d have ag: "preprocess sample_files CHMBridge_h cxx_env_after =
      Inr ([], cxx_env_after)"
    by (elim conjE) simp
  from a b c eq r em d ag show ?thesis
    by simp
qed

text \<open>
  Claim C10 as the specification words it, "introducing no declarations or definitions
  beyond those of chm_lib.h", fails on the header's own include guard. Compiled as C,
  on a first inclusion and with an include-guarded \<^verbatim>\<open>chm_lib.h\<close>, the header and
  an inclusion of \<^verbatim>\<open>chm_lib.h\<close> emit the same text, but they are not equivalent:
  after the header the macro \<^verbatim>\<open>CHMBridge_h\<close> is defined, after
  \<^verbatim>\<open>chm_lib.h\<close> it is not.
\<close>

theorem CHMBridge_h_defines_its_guard:
  "preprocess sample_files CHMBridge_h c_env \<noteq> preprocess sample_files chm_lib_wrapped c_env \<and>
   defined_after (preprocess sample_files CHMBridge_h c_env) ''CHMBridge_h'' \<and>
   \<not> defined_after (preprocess sample_files chm_lib_wrapped c_env) ''CHMBridge_h'' \<and>
   emitted_text (preprocess sample_files CHMBridge_h c_env) =
     Inr [[''struct'', ''chmFile'', '';'']] \<and>
   emitted_text (preprocess sample_files chm_lib_wrapped c_env) =
     Inr [[''struct'', ''chmFile'', '';'']]"
proof -
  have 1: "defined_after (preprocess sample_files CHMBridge_h c_env) ''CHMBridge_h''"
    unfolding CHMBridge_h_effect
    by (simp add: sample_files_def sample_chm_lib_effect c_env_def is_defined_def
          define_macro_def)
  have 2: "\<not> defined_after (preprocess sample_files chm_lib_wrapped c_env) ''CHMBridge_h''"
    unfolding chm_lib_wrapped_effect
    by (simp add: sample_files_def sample_chm_lib_effect c_env_def is_defined_def
          define_macro_def)
  have 3: "emitted_text (preprocess sample_files CHMBridge_h c_env) =
             Inr [[''struct'', ''chmFile'', '';'']]"
    unfolding CHMBridge_h_effect
    by (simp add: sample_files_def sample_chm_lib_effect c_env_def is_defined_def
          define_macro_def ident_start_def)
  have 4: "emitted_text (preprocess sample_files chm_lib_wrapped c_env) =
             Inr [[''struct'', ''chmFile'', '';'']]"
    unfolding chm_lib_wrapped_effect
    by (simp add: sample_files_def sample_chm_lib_effect c_env_def is_defined_def
          define_macro_def ident_start_def)
  from 1 2 have "preprocess sample_files CHMBridge_h c_env \<noteq>
                 preprocess sample_files chm_lib_wrapped c_env"
    by metis
  with 1 2 3 4 show ?thesis by simp
qed

end
